theory Spec2Isabelle
  imports Complex_Main
begin

section \<open>The hyperparameter schema of Grounding DINO\<close>

text \<open>
  The module \<^verbatim>\<open>config/model.py\<close> declares the dataclass \<^verbatim>\<open>GDINOModelConfig\<close>.
  Every attribute of the class is bound to one call of a field builder
  (\<^verbatim>\<open>BOOL_FIELD\<close>, \<^verbatim>\<open>FLOAT_FIELD\<close>, \<^verbatim>\<open>INT_FIELD\<close>, \<^verbatim>\<open>LIST_FIELD\<close>, \<^verbatim>\<open>STR_FIELD\<close>)
  with keyword arguments only. The embedding keeps each call as it is written: the
  attribute name, its type annotation, the builder called, and the keyword arguments in
  source order with their literal values.

  The keyword \<^verbatim>\<open>description\<close> holds help prose that nothing below reads; it is the one
  keyword left out of the lists. A float literal is kept as the decimal fraction it
  denotes; all comparisons below are against 0 and 1, which rounding to a double
  preserves.
\<close>

subsection \<open>Python values and builder calls\<close>

datatype pyval =
    PyNone
  | PyBool bool
  | PyInt int
  | PyFloat rat
  | PyStr string
  | PyList "pyval list"

datatype field_builder = BOOL_FIELD | FLOAT_FIELD | INT_FIELD | LIST_FIELD | STR_FIELD

record field_decl =
  fname :: string
  annotation :: string
  builder :: field_builder
  kwargs :: "(string \<times> pyval) list"

text \<open>\<^verbatim>\<open>sep.join(xs)\<close> of Python.\<close>

fun join_str :: "string \<Rightarrow> string list \<Rightarrow> string" where
  "join_str sep [] = []"
| "join_str sep [x] = x"
| "join_str sep (x # y # ys) = x @ sep @ join_str sep (y # ys)"

text \<open>
  \<^verbatim>\<open>SUPPORTED_BACKBONES = [*list(swin_model_dict.keys()), *["resnet_50"]]\<close>.
  The dictionary \<^verbatim>\<open>swin_model_dict\<close> is imported from the Swin transformer module;
  its keys are a parameter of the schema.
\<close>

definition SUPPORTED_BACKBONES :: "string list \<Rightarrow> string list" where
  "SUPPORTED_BACKBONES swin_model_dict_keys = swin_model_dict_keys @ [''resnet_50'']"

subsection \<open>The fields of \<^verbatim>\<open>GDINOModelConfig\<close>, in source order\<close>

definition pretrained_backbone_path :: "field_decl" where
  "pretrained_backbone_path =
    \<lparr>fname = ''pretrained_backbone_path'', annotation = ''Optional[str]'', builder = STR_FIELD, kwargs =
      [(''value'', PyNone),
       (''default_value'', PyStr ''''),
       (''display_name'', PyStr ''pretrained backbone path'')]\<rparr>"

definition backbone :: "string list \<Rightarrow> field_decl" where
  "backbone swin_model_dict_keys =
    \<lparr>fname = ''backbone'', annotation = ''str'', builder = STR_FIELD, kwargs =
      [(''value'', PyStr ''swin_tiny_224_1k''),
       (''default_value'', PyStr ''swin_tiny_224_1k''),
       (''display_name'', PyStr ''backbone''),
       (''valid_options'', PyStr (join_str '','' (SUPPORTED_BACKBONES swin_model_dict_keys))),
       (''popular'', PyStr ''yes'')]\<rparr>"

definition num_queries :: "field_decl" where
  "num_queries =
    \<lparr>fname = ''num_queries'', annotation = ''int'', builder = INT_FIELD, kwargs =
      [(''value'', PyInt 900),
       (''default_value'', PyInt 900),
       (''display_name'', PyStr ''number of queries''),
       (''valid_min'', PyInt 1),
       (''valid_max'', PyStr ''inf''),
       (''automl_enabled'', PyStr ''TRUE''),
       (''popular'', PyStr ''yes'')]\<rparr>"

definition num_feature_levels :: "field_decl" where
  "num_feature_levels =
    \<lparr>fname = ''num_feature_levels'', annotation = ''int'', builder = INT_FIELD, kwargs =
      [(''value'', PyInt 4),
       (''default_value'', PyInt 4),
       (''display_name'', PyStr ''number of feature levels''),
       (''valid_min'', PyInt 1),
       (''valid_max'', PyInt 5)]\<rparr>"

definition set_cost_class :: "field_decl" where
  "set_cost_class =
    \<lparr>fname = ''set_cost_class'', annotation = ''float'', builder = FLOAT_FIELD, kwargs =
      [(''value'', PyFloat 1),
       (''default_value'', PyFloat 1),
       (''valid_min'', PyFloat 0),
       (''valid_max'', PyStr ''inf''),
       (''display_name'', PyStr ''Set cost classification''),
       (''popular'', PyStr ''yes'')]\<rparr>"

definition set_cost_bbox :: "field_decl" where
  "set_cost_bbox =
    \<lparr>fname = ''set_cost_bbox'', annotation = ''float'', builder = FLOAT_FIELD, kwargs =
      [(''value'', PyFloat 5),
       (''default_value'', PyFloat 5),
       (''valid_min'', PyFloat 0),
       (''valid_max'', PyStr ''inf''),
       (''display_name'', PyStr ''Set cost BBox ''),
       (''popular'', PyStr ''yes'')]\<rparr>"

definition set_cost_giou :: "field_decl" where
  "set_cost_giou =
    \<lparr>fname = ''set_cost_giou'', annotation = ''float'', builder = FLOAT_FIELD, kwargs =
      [(''value'', PyFloat 2),
       (''default_value'', PyFloat 2),
       (''valid_min'', PyFloat 0),
       (''valid_max'', PyStr ''inf''),
       (''display_name'', PyStr ''Set cost GIoU''),
       (''popular'', PyStr ''yes'')]\<rparr>"

definition cls_loss_coef :: "field_decl" where
  "cls_loss_coef =
    \<lparr>fname = ''cls_loss_coef'', annotation = ''float'', builder = FLOAT_FIELD, kwargs =
      [(''value'', PyFloat 2),
       (''default_value'', PyFloat 2),
       (''valid_min'', PyFloat 0),
       (''valid_max'', PyStr ''inf''),
       (''display_name'', PyStr ''Class loss coefficient''),
       (''popular'', PyStr ''yes'')]\<rparr>"

definition bbox_loss_coef :: "field_decl" where
  "bbox_loss_coef =
    \<lparr>fname = ''bbox_loss_coef'', annotation = ''float'', builder = FLOAT_FIELD, kwargs =
      [(''value'', PyFloat 5),
       (''default_value'', PyFloat 5),
       (''valid_min'', PyFloat 0),
       (''valid_max'', PyStr ''inf''),
       (''display_name'', PyStr ''BBox loss coefficient''),
       (''popular'', PyStr ''yes'')]\<rparr>"

definition giou_loss_coef :: "field_decl" where
  "giou_loss_coef =
    \<lparr>fname = ''giou_loss_coef'', annotation = ''float'', builder = FLOAT_FIELD, kwargs =
      [(''value'', PyFloat 2),
       (''default_value'', PyFloat 2),
       (''valid_min'', PyFloat 0),
       (''valid_max'', PyStr ''inf''),
       (''display_name'', PyStr ''GIoU loss coefficient''),
       (''popular'', PyStr ''yes'')]\<rparr>"

definition num_select :: "field_decl" where
  "num_select =
    \<lparr>fname = ''num_select'', annotation = ''int'', builder = INT_FIELD, kwargs =
      [(''value'', PyInt 300),
       (''default_value'', PyInt 300),
       (''display_name'', PyStr ''num select''),
       (''valid_min'', PyInt 1),
       (''automl_enabled'', PyStr ''TRUE''),
       (''popular'', PyStr ''yes'')]\<rparr>"

definition interm_loss_coef :: "field_decl" where
  "interm_loss_coef =
    \<lparr>fname = ''interm_loss_coef'', annotation = ''float'', builder = FLOAT_FIELD, kwargs =
      [(''value'', PyFloat 1),
       (''display_name'', PyStr ''intermediate loss coefficient'')]\<rparr>"

definition no_interm_box_loss :: "field_decl" where
  "no_interm_box_loss =
    \<lparr>fname = ''no_interm_box_loss'', annotation = ''bool'', builder = BOOL_FIELD, kwargs =
      [(''value'', PyBool False),
       (''default_value'', PyBool False),
       (''display_name'', PyStr ''no interm bbox loss'')]\<rparr>"

definition pre_norm :: "field_decl" where
  "pre_norm =
    \<lparr>fname = ''pre_norm'', annotation = ''bool'', builder = BOOL_FIELD, kwargs =
      [(''value'', PyBool False),
       (''default_value'', PyBool False),
       (''display_name'', PyStr ''Pre norm'')]\<rparr>"

definition two_stage_type :: "field_decl" where
  "two_stage_type =
    \<lparr>fname = ''two_stage_type'', annotation = ''str'', builder = STR_FIELD, kwargs =
      [(''value'', PyStr ''standard''),
       (''default_value'', PyStr ''standard''),
       (''valid_options'', PyStr (join_str '','' [''standard'', ''no''])),
       (''display_name'', PyStr ''two stage type'')]\<rparr>"

definition decoder_sa_type :: "field_decl" where
  "decoder_sa_type =
    \<lparr>fname = ''decoder_sa_type'', annotation = ''str'', builder = STR_FIELD, kwargs =
      [(''value'', PyStr ''sa''),
       (''default_value'', PyStr ''sa''),
       (''valid_options'', PyStr (join_str '','' [''sa'', ''ca_label'', ''ca_content''])),
       (''display_name'', PyStr ''decoder self-attention type'')]\<rparr>"

definition embed_init_tgt :: "field_decl" where
  "embed_init_tgt =
    \<lparr>fname = ''embed_init_tgt'', annotation = ''bool'', builder = BOOL_FIELD, kwargs =
      [(''value'', PyBool True),
       (''default_value'', PyBool True),
       (''display_name'', PyStr ''embed init target'')]\<rparr>"

definition fix_refpoints_hw :: "field_decl" where
  "fix_refpoints_hw =
    \<lparr>fname = ''fix_refpoints_hw'', annotation = ''int'', builder = INT_FIELD, kwargs =
      [(''value'', PyInt (- 1)),
       (''default_value'', PyInt (- 1)),
       (''valid_min'', PyInt (- 2)),
       (''valid_max'', PyStr ''inf''),
       (''math_cond'', PyStr ''!= 0''),
       (''display_name'', PyStr ''fix refpoints hw'')]\<rparr>"

definition pe_temperatureH :: "field_decl" where
  "pe_temperatureH =
    \<lparr>fname = ''pe_temperatureH'', annotation = ''int'', builder = INT_FIELD, kwargs =
      [(''value'', PyInt 20),
       (''default_value'', PyInt 20),
       (''display_name'', PyStr ''pe_temperatureH''),
       (''valid_min'', PyInt 1),
       (''valid_max'', PyStr ''inf'')]\<rparr>"

definition pe_temperatureW :: "field_decl" where
  "pe_temperatureW =
    \<lparr>fname = ''pe_temperatureW'', annotation = ''int'', builder = INT_FIELD, kwargs =
      [(''value'', PyInt 20),
       (''default_value'', PyInt 20),
       (''display_name'', PyStr ''pe_temperatureW''),
       (''valid_min'', PyInt 1),
       (''valid_max'', PyStr ''inf'')]\<rparr>"

definition return_interm_indices :: "field_decl" where
  "return_interm_indices =
    \<lparr>fname = ''return_interm_indices'', annotation = ''List[int]'', builder = LIST_FIELD, kwargs =
      [(''arrList'', PyList [PyInt 1, PyInt 2, PyInt 3, PyInt 4]),
       (''display_name'', PyStr ''return interim indices'')]\<rparr>"

definition use_dn :: "field_decl" where
  "use_dn =
    \<lparr>fname = ''use_dn'', annotation = ''bool'', builder = BOOL_FIELD, kwargs =
      [(''value'', PyBool True),
       (''default_value'', PyBool True),
       (''display_name'', PyStr ''use denoising'')]\<rparr>"

definition dn_number :: "field_decl" where
  "dn_number =
    \<lparr>fname = ''dn_number'', annotation = ''int'', builder = INT_FIELD, kwargs =
      [(''value'', PyInt 0),
       (''default_value'', PyInt 0),
       (''display_name'', PyStr ''denoising number''),
       (''valid_min'', PyInt 0),
       (''valid_max'', PyStr ''inf'')]\<rparr>"

definition dn_box_noise_scale :: "field_decl" where
  "dn_box_noise_scale =
    \<lparr>fname = ''dn_box_noise_scale'', annotation = ''float'', builder = FLOAT_FIELD, kwargs =
      [(''value'', PyFloat 1),
       (''default_value'', PyFloat 1),
       (''display_name'', PyStr ''Denoised boxes noise scaling''),
       (''valid_min'', PyFloat 0),
       (''valid_max'', PyStr ''inf'')]\<rparr>"

definition dn_label_noise_ratio :: "field_decl" where
  "dn_label_noise_ratio =
    \<lparr>fname = ''dn_label_noise_ratio'', annotation = ''float'', builder = FLOAT_FIELD, kwargs =
      [(''value'', PyFloat (1 / 2)),
       (''default_value'', PyFloat (1 / 2)),
       (''display_name'', PyStr ''denoise label noise ratio''),
       (''valid_min'', PyFloat 0)]\<rparr>"

definition focal_alpha :: "field_decl" where
  "focal_alpha =
    \<lparr>fname = ''focal_alpha'', annotation = ''float'', builder = FLOAT_FIELD, kwargs =
      [(''value'', PyFloat (1 / 4)),
       (''display_name'', PyStr ''focal alpha''),
       (''math_cond'', PyStr ''> 0.0'')]\<rparr>"

definition focal_gamma :: "field_decl" where
  "focal_gamma =
    \<lparr>fname = ''focal_gamma'', annotation = ''float'', builder = FLOAT_FIELD, kwargs =
      [(''value'', PyFloat 2),
       (''display_name'', PyStr ''focal gamma''),
       (''math_cond'', PyStr ''> 0.0'')]\<rparr>"

definition clip_max_norm :: "field_decl" where
  "clip_max_norm =
    \<lparr>fname = ''clip_max_norm'', annotation = ''float'', builder = FLOAT_FIELD, kwargs =
      [(''value'', PyFloat (1 / 10)),
       (''display_name'', PyStr ''clip max norm'')]\<rparr>"

definition nheads :: "field_decl" where
  "nheads =
    \<lparr>fname = ''nheads'', annotation = ''int'', builder = INT_FIELD, kwargs =
      [(''value'', PyInt 8),
       (''default_value'', PyInt 8),
       (''display_name'', PyStr ''nheads'')]\<rparr>"

definition dropout_ratio :: "field_decl" where
  "dropout_ratio =
    \<lparr>fname = ''dropout_ratio'', annotation = ''float'', builder = FLOAT_FIELD, kwargs =
      [(''value'', PyFloat 0),
       (''default_value'', PyFloat 0),
       (''display_name'', PyStr ''drop out ratio''),
       (''valid_min'', PyFloat 0),
       (''valid_max'', PyFloat 1)]\<rparr>"

definition hidden_dim :: "field_decl" where
  "hidden_dim =
    \<lparr>fname = ''hidden_dim'', annotation = ''int'', builder = INT_FIELD, kwargs =
      [(''value'', PyInt 256),
       (''default_value'', PyInt 256),
       (''display_unit'', PyStr ''hidden dim''),
       (''automl_enabled'', PyStr ''FALSE'')]\<rparr>"

definition enc_layers :: "field_decl" where
  "enc_layers =
    \<lparr>fname = ''enc_layers'', annotation = ''int'', builder = INT_FIELD, kwargs =
      [(''value'', PyInt 6),
       (''default_value'', PyInt 6),
       (''valid_min'', PyInt 1),
       (''automl_enabled'', PyStr ''TRUE''),
       (''display_name'', PyStr ''encoder layers'')]\<rparr>"

definition dec_layers :: "field_decl" where
  "dec_layers =
    \<lparr>fname = ''dec_layers'', annotation = ''int'', builder = INT_FIELD, kwargs =
      [(''value'', PyInt 6),
       (''default_value'', PyInt 6),
       (''valid_min'', PyInt 1),
       (''automl_enabled'', PyStr ''TRUE''),
       (''display_name'', PyStr ''decoder layers'')]\<rparr>"

definition dim_feedforward :: "field_decl" where
  "dim_feedforward =
    \<lparr>fname = ''dim_feedforward'', annotation = ''int'', builder = INT_FIELD, kwargs =
      [(''value'', PyInt 2048),
       (''display_name'', PyStr ''dim feedforward''),
       (''valid_min'', PyInt 1)]\<rparr>"

definition dec_n_points :: "field_decl" where
  "dec_n_points =
    \<lparr>fname = ''dec_n_points'', annotation = ''int'', builder = INT_FIELD, kwargs =
      [(''value'', PyInt 4),
       (''display_name'', PyStr ''decoder n points''),
       (''valid_min'', PyInt 1)]\<rparr>"

definition enc_n_points :: "field_decl" where
  "enc_n_points =
    \<lparr>fname = ''enc_n_points'', annotation = ''int'', builder = INT_FIELD, kwargs =
      [(''value'', PyInt 4),
       (''display_name'', PyStr ''encoder n points''),
       (''valid_min'', PyInt 1)]\<rparr>"

definition aux_loss :: "field_decl" where
  "aux_loss =
    \<lparr>fname = ''aux_loss'', annotation = ''bool'', builder = BOOL_FIELD, kwargs =
      [(''value'', PyBool True),
       (''default_value'', PyBool True),
       (''display_name'', PyStr ''Train backbone'')]\<rparr>"

definition dilation :: "field_decl" where
  "dilation =
    \<lparr>fname = ''dilation'', annotation = ''bool'', builder = BOOL_FIELD, kwargs =
      [(''value'', PyBool False),
       (''default_value'', PyBool False),
       (''display_name'', PyStr ''Dilation enabled.'')]\<rparr>"

definition train_backbone :: "field_decl" where
  "train_backbone =
    \<lparr>fname = ''train_backbone'', annotation = ''bool'', builder = BOOL_FIELD, kwargs =
      [(''value'', PyBool True),
       (''default_value'', PyBool True),
       (''display_name'', PyStr ''Train backbone'')]\<rparr>"

definition text_encoder_type :: "field_decl" where
  "text_encoder_type =
    \<lparr>fname = ''text_encoder_type'', annotation = ''str'', builder = STR_FIELD, kwargs =
      [(''value'', PyStr ''bert-base-uncased''),
       (''default_value'', PyStr ''bert-base-uncased''),
       (''display_name'', PyStr ''Text encoder type'')]\<rparr>"

definition max_text_len :: "field_decl" where
  "max_text_len =
    \<lparr>fname = ''max_text_len'', annotation = ''int'', builder = INT_FIELD, kwargs =
      [(''value'', PyInt 256),
       (''display_name'', PyStr ''Maximum text length''),
       (''valid_min'', PyInt 1)]\<rparr>"

definition class_embed_bias :: "field_decl" where
  "class_embed_bias =
    \<lparr>fname = ''class_embed_bias'', annotation = ''bool'', builder = BOOL_FIELD, kwargs =
      [(''value'', PyBool False),
       (''default_value'', PyBool False),
       (''display_name'', PyStr ''Class embedding bias'')]\<rparr>"

definition log_scale :: "field_decl" where
  "log_scale =
    \<lparr>fname = ''log_scale'', annotation = ''Optional[str]'', builder = STR_FIELD, kwargs =
      [(''value'', PyNone),
       (''default_value'', PyStr ''none''),
       (''display_name'', PyStr ''log scale'')]\<rparr>"

definition loss_types :: "field_decl" where
  "loss_types =
    \<lparr>fname = ''loss_types'', annotation = ''List[str]'', builder = LIST_FIELD, kwargs =
      [(''arrList'', PyList [PyStr ''labels'', PyStr ''boxes'']),
       (''display_name'', PyStr ''loss_types'')]\<rparr>"

definition backbone_names :: "field_decl" where
  "backbone_names =
    \<lparr>fname = ''backbone_names'', annotation = ''List[str]'', builder = LIST_FIELD, kwargs =
      [(''arrList'', PyList [PyStr ''backbone.0'', PyStr ''bert'']),
       (''display_name'', PyStr ''Backbone tensor name prefix'')]\<rparr>"

definition linear_proj_names :: "field_decl" where
  "linear_proj_names =
    \<lparr>fname = ''linear_proj_names'', annotation = ''List[str]'', builder = LIST_FIELD, kwargs =
      [(''arrList'', PyList [PyStr ''reference_points'', PyStr ''sampling_offsets'']),
       (''display_name'', PyStr ''linear projection names'')]\<rparr>"

definition GDINOModelConfig :: "string list \<Rightarrow> field_decl list" where
  "GDINOModelConfig swin_model_dict_keys =
    [pretrained_backbone_path,
     backbone swin_model_dict_keys,
     num_queries,
     num_feature_levels,
     set_cost_class,
     set_cost_bbox,
     set_cost_giou,
     cls_loss_coef,
     bbox_loss_coef,
     giou_loss_coef,
     num_select,
     interm_loss_coef,
     no_interm_box_loss,
     pre_norm,
     two_stage_type,
     decoder_sa_type,
     embed_init_tgt,
     fix_refpoints_hw,
     pe_temperatureH,
     pe_temperatureW,
     return_interm_indices,
     use_dn,
     dn_number,
     dn_box_noise_scale,
     dn_label_noise_ratio,
     focal_alpha,
     focal_gamma,
     clip_max_norm,
     nheads,
     dropout_ratio,
     hidden_dim,
     enc_layers,
     dec_layers,
     dim_feedforward,
     dec_n_points,
     enc_n_points,
     aux_loss,
     dilation,
     train_backbone,
     text_encoder_type,
     max_text_len,
     class_embed_bias,
     log_scale,
     loss_types,
     backbone_names,
     linear_proj_names]"

subsection \<open>Reading a builder call\<close>

text \<open>The value passed for a keyword, \<open>None\<close> when the call does not pass it.\<close>

definition kw :: "field_decl \<Rightarrow> string \<Rightarrow> pyval option" where
  "kw f k = map_of (kwargs f) k"

definition automl_fields :: "field_decl list \<Rightarrow> field_decl list" where
  "automl_fields fs = filter (\<lambda>f. kw f ''automl_enabled'' = Some (PyStr ''TRUE'')) fs"

definition fields_without :: "string \<Rightarrow> field_decl list \<Rightarrow> field_decl list" where
  "fields_without k fs = filter (\<lambda>f. kw f k = None) fs"

subsection \<open>Bounds, options and conditions as the declarations carry them\<close>

text \<open>
  The calls pass \<^verbatim>\<open>valid_min\<close>, \<^verbatim>\<open>valid_max\<close>, \<^verbatim>\<open>math_cond\<close> and \<^verbatim>\<open>valid_options\<close> as plain
  keyword values; what they mean is fixed by the spec's data model: an optional interval
  for numeric fields whose upper end may be unbounded, an optional predicate on the value,
  and an optional set of allowed strings.
  A bound or a value is a number when it is an \<^verbatim>\<open>int\<close> or a \<^verbatim>\<open>float\<close> literal. The
  upper bound may also be the string \<^verbatim>\<open>"inf"\<close>, which leaves the field unbounded above.
\<close>

fun num_of :: "pyval \<Rightarrow> rat option" where
  "num_of (PyInt i) = Some (of_int i)"
| "num_of (PyFloat r) = Some r"
| "num_of _ = None"

datatype upper_bound = Unbounded | Upto rat

fun upper_of :: "pyval \<Rightarrow> upper_bound option" where
  "upper_of (PyStr s) = (if s = ''inf'' then Some Unbounded else None)"
| "upper_of v = map_option Upto (num_of v)"

definition is_numeric :: "field_decl \<Rightarrow> bool" where
  "is_numeric f = (builder f = INT_FIELD \<or> builder f = FLOAT_FIELD)"

definition declares_bounds :: "field_decl \<Rightarrow> bool" where
  "declares_bounds f = (kw f ''valid_min'' \<noteq> None \<or> kw f ''valid_max'' \<noteq> None)"

definition declares_min_and_max :: "field_decl \<Rightarrow> bool" where
  "declares_min_and_max f = (kw f ''valid_min'' \<noteq> None \<and> kw f ''valid_max'' \<noteq> None)"

text \<open>\<open>min \<le> max\<close>, or \<open>max\<close> is the unbounded sentinel.\<close>

definition min_le_max :: "field_decl \<Rightarrow> bool" where
  "min_le_max f =
     (case (kw f ''valid_min'', kw f ''valid_max'') of
        (Some lo, Some hi) \<Rightarrow>
          (case (num_of lo, upper_of hi) of
             (Some l, Some Unbounded) \<Rightarrow> True
           | (Some l, Some (Upto h)) \<Rightarrow> l \<le> h
           | _ \<Rightarrow> False)
      | _ \<Rightarrow> False)"

text \<open>
  A number \<open>x\<close> against the bounds a call declares: a bound that is not declared does not
  constrain, a declared bound that is not a number (nor \<^verbatim>\<open>"inf"\<close> above) is met by nothing.
\<close>

definition at_least_min :: "field_decl \<Rightarrow> rat \<Rightarrow> bool" where
  "at_least_min f x =
     (case kw f ''valid_min'' of
        None \<Rightarrow> True
      | Some lo \<Rightarrow> (case num_of lo of Some l \<Rightarrow> l \<le> x | None \<Rightarrow> False))"

definition at_most_max :: "field_decl \<Rightarrow> rat \<Rightarrow> bool" where
  "at_most_max f x =
     (case kw f ''valid_max'' of
        None \<Rightarrow> True
      | Some hi \<Rightarrow>
          (case upper_of hi of
             Some Unbounded \<Rightarrow> True
           | Some (Upto h) \<Rightarrow> x \<le> h
           | None \<Rightarrow> False))"

text \<open>The number a call declares as \<^verbatim>\<open>value\<close>.\<close>

definition num_value :: "field_decl \<Rightarrow> rat option" where
  "num_value f = (case kw f ''value'' of None \<Rightarrow> None | Some v \<Rightarrow> num_of v)"

definition value_in_bounds :: "field_decl \<Rightarrow> bool" where
  "value_in_bounds f =
     (case num_value f of None \<Rightarrow> False | Some x \<Rightarrow> at_least_min f x \<and> at_most_max f x)"

subsubsection \<open>The condition strings\<close>

fun index_of :: "'a \<Rightarrow> 'a list \<Rightarrow> nat option" where
  "index_of x [] = None"
| "index_of x (y # ys) = (if x = y then Some 0 else map_option Suc (index_of x ys))"

definition digit_of :: "char \<Rightarrow> nat option" where
  "digit_of c = index_of c ''0123456789''"

fun digits_val :: "nat \<Rightarrow> string \<Rightarrow> nat option" where
  "digits_val acc [] = Some acc"
| "digits_val acc (c # cs) =
     (case digit_of c of None \<Rightarrow> None | Some d \<Rightarrow> digits_val (10 * acc + d) cs)"

definition parse_nat :: "string \<Rightarrow> nat option" where
  "parse_nat s = (if s = [] then None else digits_val 0 s)"

definition parse_unsigned :: "string \<Rightarrow> rat option" where
  "parse_unsigned s =
     (let whole = takeWhile (\<lambda>c. c \<noteq> CHR ''.'') s;
          rest = dropWhile (\<lambda>c. c \<noteq> CHR ''.'') s
      in case parse_nat whole of
           None \<Rightarrow> None
         | Some i \<Rightarrow>
             (if rest = [] then Some (of_nat i)
              else case parse_nat (tl rest) of
                     None \<Rightarrow> None
                   | Some fr \<Rightarrow> Some (of_nat i + of_nat fr / 10 ^ length (tl rest))))"

definition parse_number :: "string \<Rightarrow> rat option" where
  "parse_number s =
     (case s of
        [] \<Rightarrow> None
      | c # cs \<Rightarrow>
          if c = CHR ''-'' then map_option uminus (parse_unsigned cs) else parse_unsigned s)"

text \<open>
  Modelled from the spec: the evaluator of \<^verbatim>\<open>math_cond\<close> is not part of this module. The
  spec gives the condition as a predicate string such as \<^verbatim>\<open>"> 0.0"\<close> or \<^verbatim>\<open>"!= 0"\<close>,
  evaluated against the value: a comparison operator, one space, a decimal constant.
  The result is \<open>None\<close> when the string is not of that form.
\<close>

definition eval_math_cond :: "string \<Rightarrow> rat \<Rightarrow> bool option" where
  "eval_math_cond cond x =
     (let rel = takeWhile (\<lambda>c. c \<noteq> CHR '' '') cond;
          arg = drop 1 (dropWhile (\<lambda>c. c \<noteq> CHR '' '') cond)
      in case parse_number arg of
           None \<Rightarrow> None
         | Some k \<Rightarrow>
             if rel = ''>'' then Some (x > k)
             else if rel = ''>='' then Some (x \<ge> k)
             else if rel = ''<'' then Some (x < k)
             else if rel = ''<='' then Some (x \<le> k)
             else if rel = ''=='' then Some (x = k)
             else if rel = ''!='' then Some (x \<noteq> k)
             else None)"

definition value_meets_math_cond :: "field_decl \<Rightarrow> bool" where
  "value_meets_math_cond f =
     (case (kw f ''math_cond'', num_value f) of
        (Some (PyStr c), Some x) \<Rightarrow> eval_math_cond c x = Some True
      | _ \<Rightarrow> False)"

subsubsection \<open>The option strings\<close>

text \<open>
  \<^verbatim>\<open>valid_options\<close> is passed as one string, the options joined by commas;
  \<^verbatim>\<open>s.split(",")\<close> of Python gives the options back.
\<close>

fun split_on :: "char \<Rightarrow> string \<Rightarrow> string list" where
  "split_on c [] = [[]]"
| "split_on c (x # xs) =
     (if x = c then [] # split_on c xs
      else (case split_on c xs of [] \<Rightarrow> [[x]] | w # ws \<Rightarrow> (x # w) # ws))"

definition option_list :: "field_decl \<Rightarrow> string list option" where
  "option_list f =
     (case kw f ''valid_options'' of
        Some (PyStr s) \<Rightarrow> Some (split_on CHR '','' s)
      | _ \<Rightarrow> None)"

definition value_in_options :: "field_decl \<Rightarrow> bool" where
  "value_in_options f =
     (case (kw f ''value'', option_list f) of
        (Some (PyStr v), Some opts) \<Rightarrow> v \<in> set opts
      | (Some PyNone, Some opts) \<Rightarrow> True
      | _ \<Rightarrow> False)"

section \<open>The consumers of the schema\<close>

text \<open>
  The builders, the validator, the loader and the subtask machinery live in other modules
  of the package (\<^verbatim>\<open>nvidia_tao_pytorch.config.types\<close>, \<^verbatim>\<open>nvidia_tao_pytorch.core.entrypoint\<close>).
  They are modelled from the specification, each definition says so; the schema they run
  on and the entry point \<^verbatim>\<open>main\<close> are the source's.
\<close>

subsection \<open>Errors\<close>

datatype rule =
    TypeMismatch
  | MissingField
  | BelowMin
  | AboveMax
  | MathCondition
  | NotAnOption
  | EmptyOptions
  | MalformedBounds
  | LengthMismatch

datatype error =
    SchemaDefinitionError string rule
  | ConfigValidationError string rule
  | SubtaskDiscoveryError
  | SubtaskNotFoundError string "string list"
  | SubtaskExecutionError string
  | UsageError
  | FrozenInstanceError string
  | AttributeError string

subsection \<open>The value a call declares\<close>

text \<open>
  A list field passes its value as \<^verbatim>\<open>arrList\<close>, every other field as \<^verbatim>\<open>value\<close>.
  \<open>declared_record\<close> is the record that holds, for every field, the value its call declares.
\<close>

definition declared_value :: "field_decl \<Rightarrow> pyval option" where
  "declared_value f = (if builder f = LIST_FIELD then kw f ''arrList'' else kw f ''value'')"

definition declared_record :: "field_decl list \<Rightarrow> (string \<times> pyval) list" where
  "declared_record schema =
     map (\<lambda>f. (fname f, case declared_value f of Some v \<Rightarrow> v | None \<Rightarrow> PyNone)) schema"

subsection \<open>Validation of a populated record\<close>

text \<open>
  Modelled from the spec: the validator is an external collaborator of this module. It
  walks all fields, checks each value against the field's own bounds, options and
  condition, and reports every violation with the field's name and the rule broken; a
  value is never clamped or coerced. An enum value may be the unset sentinel
  (\<^verbatim>\<open>None\<close> or the empty string).
\<close>

definition bound_violations :: "field_decl \<Rightarrow> pyval \<Rightarrow> rule list" where
  "bound_violations f v =
     (if declares_bounds f then
        (case num_of v of
           None \<Rightarrow> [TypeMismatch]
         | Some x \<Rightarrow>
             (if at_least_min f x then [] else [BelowMin]) @
             (if at_most_max f x then [] else [AboveMax]))
      else [])"

definition cond_violations :: "field_decl \<Rightarrow> pyval \<Rightarrow> rule list" where
  "cond_violations f v =
     (case kw f ''math_cond'' of
        None \<Rightarrow> []
      | Some c \<Rightarrow>
          (case (c, num_of v) of
             (PyStr s, Some x) \<Rightarrow> if eval_math_cond s x = Some True then [] else [MathCondition]
           | _ \<Rightarrow> [TypeMismatch]))"

definition option_violations :: "field_decl \<Rightarrow> pyval \<Rightarrow> rule list" where
  "option_violations f v =
     (case option_list f of
        None \<Rightarrow> []
      | Some opts \<Rightarrow>
          (case v of
             PyNone \<Rightarrow> []
           | PyStr s \<Rightarrow> if s = [] \<or> s \<in> set opts then [] else [NotAnOption]
           | _ \<Rightarrow> [TypeMismatch]))"

definition value_violations :: "field_decl \<Rightarrow> pyval \<Rightarrow> rule list" where
  "value_violations f v = bound_violations f v @ cond_violations f v @ option_violations f v"

definition field_errors :: "(string \<rightharpoonup> pyval) \<Rightarrow> field_decl \<Rightarrow> error list" where
  "field_errors r f =
     (case r (fname f) of
        None \<Rightarrow> [ConfigValidationError (fname f) MissingField]
      | Some v \<Rightarrow> map (ConfigValidationError (fname f)) (value_violations f v))"

text \<open>
  Modelled from the spec: the one cross-field invariant,
  \<^verbatim>\<open>len(return_interm_indices) == num_feature_levels\<close>, is enforced by the validator.
\<close>

definition cross_field_errors :: "(string \<rightharpoonup> pyval) \<Rightarrow> error list" where
  "cross_field_errors r =
     (case (r ''return_interm_indices'', r ''num_feature_levels'') of
        (Some (PyList xs), Some (PyInt n)) \<Rightarrow>
          if int (length xs) = n then []
          else [ConfigValidationError ''return_interm_indices'' LengthMismatch]
      | _ \<Rightarrow> [ConfigValidationError ''return_interm_indices'' TypeMismatch])"

definition validate :: "field_decl list \<Rightarrow> (string \<rightharpoonup> pyval) \<Rightarrow> error list" where
  "validate schema r = concat (map (field_errors r) schema) @ cross_field_errors r"

subsection \<open>Construction of a descriptor\<close>

text \<open>
  Modelled from the spec: the builders are imported from \<^verbatim>\<open>nvidia_tao_pytorch.config.types\<close>.
  By the spec a builder fails fast with a schema-definition error when the bounds are
  malformed (\<open>min > max\<close>), when the options are empty, or when the value is outside the
  bounds, the condition or the options; otherwise the descriptor is the call as passed.
\<close>

definition build_field :: "field_decl \<Rightarrow> error + field_decl" where
  "build_field f =
     (if declares_min_and_max f \<and> \<not> min_le_max f then
        Inl (SchemaDefinitionError (fname f) MalformedBounds)
      else if kw f ''valid_options'' = Some (PyStr []) then
        Inl (SchemaDefinitionError (fname f) EmptyOptions)
      else
        (case declared_value f of
           None \<Rightarrow> Inl (SchemaDefinitionError (fname f) MissingField)
         | Some v \<Rightarrow>
             (case value_violations f v of
                [] \<Rightarrow> Inr f
              | r # rs \<Rightarrow> Inl (SchemaDefinitionError (fname f) r))))"

subsection \<open>Loading a record\<close>




subsection \<open>The dataclass\<close>

text \<open>
  The class is decorated with a bare \<^verbatim>\<open>@dataclass\<close>, so \<^verbatim>\<open>frozen\<close> has its default
  \<^verbatim>\<open>False\<close>. An instance maps attribute names to values. Assigning an attribute of a
  frozen dataclass raises \<^verbatim>\<open>FrozenInstanceError\<close>; on any other it stores the value,
  also under a name the class does not declare. Reading an attribute returns its value and
  the instance as it was.
\<close>

record dataclass_params =
  frozen :: bool

definition GDINOModelConfig_params :: dataclass_params where
  "GDINOModelConfig_params = \<lparr>frozen = False\<rparr>"

definition setattr ::
  "dataclass_params \<Rightarrow> (string \<rightharpoonup> pyval) \<Rightarrow> string \<Rightarrow> pyval \<Rightarrow> error + (string \<rightharpoonup> pyval)" where
  "setattr p obj n v = (if frozen p then Inl (FrozenInstanceError n) else Inr (obj(n \<mapsto> v)))"

definition getattr ::
  "(string \<rightharpoonup> pyval) \<Rightarrow> string \<Rightarrow> (error + pyval) \<times> (string \<rightharpoonup> pyval)" where
  "getattr obj n = (case obj n of None \<Rightarrow> (Inl (AttributeError n), obj) | Some v \<Rightarrow> (Inr v, obj))"

section \<open>The entry point\<close>

text \<open>
  \<^verbatim>\<open>entrypoint/grounding_dino.py\<close>: \<^verbatim>\<open>main\<close> obtains the subtasks of the \<^verbatim>\<open>scripts\<close>
  package, parses the command line and launches the subtask for the network
  \<^verbatim>\<open>"grounding_dino"\<close>. A handler is run on an invocation and returns \<open>None\<close> or its own
  error; the invocations run so far are the state.
\<close>

record invocation =
  subtask :: string
  network :: string
  forwarded :: "string list"

type_synonym handler = "invocation \<Rightarrow> error option"

text \<open>
  Modelled from the spec: \<^verbatim>\<open>get_subtasks\<close> scans the package for subtask handlers and
  fails when there is none.
\<close>

definition get_subtasks :: "(string \<times> handler) list \<Rightarrow> error + (string \<times> handler) list" where
  "get_subtasks package = (if package = [] then Inl SubtaskDiscoveryError else Inr package)"

definition get_subtask_list :: "(string \<times> handler) list \<Rightarrow> error + (string \<times> handler) list" where
  "get_subtask_list scripts = get_subtasks scripts"

text \<open>
  Modelled from the spec: \<^verbatim>\<open>command_line_parser\<close> takes the first token as the subtask
  name and returns the rest as the unknown arguments, untouched.
\<close>

definition command_line_parser ::
  "(string \<times> handler) list \<Rightarrow> string list \<Rightarrow> error + (string \<times> string list)" where
  "command_line_parser subtasks argv =
     (case argv of [] \<Rightarrow> Inl UsageError | name # rest \<Rightarrow> Inr (name, rest))"

text \<open>
  Modelled from the spec: \<^verbatim>\<open>launch\<close> looks the name up in the registry. An unknown name
  fails with the list of valid names and runs nothing; a known one runs its handler once
  with the unknown arguments and returns whatever the handler returns.
\<close>

definition launch ::
  "string \<Rightarrow> string list \<Rightarrow> (string \<times> handler) list \<Rightarrow> string \<Rightarrow> invocation list
     \<Rightarrow> error option \<times> invocation list" where
  "launch name unknown_args subtasks net trace =
     (case map_of subtasks name of
        None \<Rightarrow> (Some (SubtaskNotFoundError name (map fst subtasks)), trace)
      | Some h \<Rightarrow>
          (let inv = \<lparr>subtask = name, network = net, forwarded = unknown_args\<rparr>
           in (h inv, trace @ [inv])))"

definition main ::
  "(string \<times> handler) list \<Rightarrow> string list \<Rightarrow> invocation list \<Rightarrow> error option \<times> invocation list" where
  "main scripts argv trace =
     (case get_subtask_list scripts of
        Inl e \<Rightarrow> (Some e, trace)
      | Inr subtasks \<Rightarrow>
          (case command_line_parser subtasks argv of
             Inl e \<Rightarrow> (Some e, trace)
           | Inr (name, unknown_args) \<Rightarrow> launch name unknown_args subtasks ''grounding_dino'' trace))"

lemmas field_defs = pretrained_backbone_path_def backbone_def num_queries_def
  num_feature_levels_def set_cost_class_def set_cost_bbox_def set_cost_giou_def
  cls_loss_coef_def bbox_loss_coef_def giou_loss_coef_def num_select_def interm_loss_coef_def
  no_interm_box_loss_def pre_norm_def two_stage_type_def decoder_sa_type_def embed_init_tgt_def
  fix_refpoints_hw_def pe_temperatureH_def pe_temperatureW_def return_interm_indices_def
  use_dn_def dn_number_def dn_box_noise_scale_def dn_label_noise_ratio_def focal_alpha_def
  focal_gamma_def clip_max_norm_def nheads_def dropout_ratio_def hidden_dim_def enc_layers_def
  dec_layers_def dim_feedforward_def dec_n_points_def enc_n_points_def aux_loss_def
  dilation_def train_backbone_def text_encoder_type_def max_text_len_def class_embed_bias_def
  log_scale_def loss_types_def backbone_names_def linear_proj_names_def

section \<open>Auxiliary facts\<close>

subsection \<open>Splitting what was joined\<close>

lemma split_on_nonempty: "split_on c s \<noteq> []"
  by (induction s) (auto split: list.splits)

lemma split_on_no_sep: "c \<notin> set s \<Longrightarrow> split_on c s = [s]"
  by (induction s) auto

lemma split_on_append_sep:
  "split_on c (s @ c # t) = split_on c s @ split_on c t"
proof (induction s)
  case Nil
  show ?case by simp
next
  case (Cons a s)
  obtain w ws where w: "split_on c s = w # ws"
    using split_on_nonempty [of c s] by (cases "split_on c s") auto
  show ?case using Cons w by simp
qed

lemma split_on_join:
  "xs \<noteq> [] \<Longrightarrow> split_on c (join_str [c] xs) = concat (map (split_on c) xs)"
proof (induction xs)
  case Nil
  then show ?case by simp
next
  case (Cons x xs)
  show ?case
  proof (cases xs)
    case Nil
    then show ?thesis by simp
  next
    case (Cons y ys)
    with Cons.IH show ?thesis by (simp add: split_on_append_sep)
  qed
qed

lemma member_split_join:
  assumes "x \<in> set xs" and "c \<notin> set x"
  shows "x \<in> set (split_on c (join_str [c] xs))"
proof -
  from assms(1) have ne: "xs \<noteq> []" by auto
  have "x \<in> set (split_on c x)" using assms(2) by (simp add: split_on_no_sep)
  with assms(1) have "x \<in> set (concat (map (split_on c) xs))" by auto
  with ne show ?thesis by (simp add: split_on_join)
qed

subsection \<open>The two condition strings of the schema\<close>

lemma eval_ne_zero: "eval_math_cond ''!= 0'' x = Some (x \<noteq> 0)"
  by (simp add: eval_math_cond_def parse_number_def parse_unsigned_def parse_nat_def digit_of_def)

lemma eval_gt_zero: "eval_math_cond ''> 0.0'' x = Some (0 < x)"
  by (simp add: eval_math_cond_def parse_number_def parse_unsigned_def parse_nat_def digit_of_def)

subsection \<open>Looking a field up by name\<close>

lemma names_distinct: "distinct (map fname (GDINOModelConfig ks))"
  by (simp add: GDINOModelConfig_def field_defs)

lemma map_of_named:
  "distinct (map fname schema) \<Longrightarrow> f \<in> set schema \<Longrightarrow>
   map_of (map (\<lambda>f. (fname f, g f)) schema) (fname f) = Some (g f)"
  by (induction schema) (auto simp: rev_image_eqI)

subsection \<open>The declared record\<close>

lemma declared_values_clean:
  assumes "''swin_tiny_224_1k'' \<in> set ks"
  shows "\<forall>f \<in> set (GDINOModelConfig ks).
           \<exists>v. declared_value f = Some v \<and> value_violations f v = []"
proof -
  from assms have "''swin_tiny_224_1k'' \<in> set (SUPPORTED_BACKBONES ks)"
    by (simp add: SUPPORTED_BACKBONES_def)
  then have "''swin_tiny_224_1k''
      \<in> set (split_on CHR '','' (join_str '','' (SUPPORTED_BACKBONES ks)))"
    by (rule member_split_join) simp
  then show ?thesis
    by (simp add: GDINOModelConfig_def declared_value_def value_violations_def
        bound_violations_def cond_violations_def option_violations_def option_list_def
        declares_bounds_def at_least_min_def at_most_max_def kw_def field_defs
        eval_ne_zero eval_gt_zero)
qed

lemma field_errors_declared:
  assumes "''swin_tiny_224_1k'' \<in> set ks" and "f \<in> set (GDINOModelConfig ks)"
  shows "field_errors (map_of (declared_record (GDINOModelConfig ks))) f = []"
proof -
  from declared_values_clean [OF assms(1)] assms(2) obtain v
    where v: "declared_value f = Some v" "value_violations f v = []" by blast
  have "map_of (declared_record (GDINOModelConfig ks)) (fname f) = Some v"
    using map_of_named [OF names_distinct assms(2),
        of "\<lambda>f. case declared_value f of Some v \<Rightarrow> v | None \<Rightarrow> PyNone"] v(1)
    by (simp add: declared_record_def)
  with v(2) show ?thesis by (simp add: field_errors_def)
qed

lemma declared_num_feature_levels:
  "map_of (declared_record (GDINOModelConfig ks)) ''num_feature_levels'' = Some (PyInt 4)"
proof -
  have "num_feature_levels \<in> set (GDINOModelConfig ks)" by (simp add: GDINOModelConfig_def)
  from map_of_named [OF names_distinct this,
      of "\<lambda>f. case declared_value f of Some v \<Rightarrow> v | None \<Rightarrow> PyNone"]
  show ?thesis
    by (simp add: declared_record_def declared_value_def kw_def num_feature_levels_def)
qed

lemma declared_return_interm_indices:
  "map_of (declared_record (GDINOModelConfig ks)) ''return_interm_indices'' =
     Some (PyList [PyInt 1, PyInt 2, PyInt 3, PyInt 4])"
proof -
  have "return_interm_indices \<in> set (GDINOModelConfig ks)" by (simp add: GDINOModelConfig_def)
  from map_of_named [OF names_distinct this,
      of "\<lambda>f. case declared_value f of Some v \<Rightarrow> v | None \<Rightarrow> PyNone"]
  show ?thesis
    by (simp add: declared_record_def declared_value_def kw_def return_interm_indices_def)
qed

lemma validate_declared:
  assumes "''swin_tiny_224_1k'' \<in> set ks"
  shows "validate (GDINOModelConfig ks) (map_of (declared_record (GDINOModelConfig ks))) = []"
  using field_errors_declared [OF assms]
  by (simp add: validate_def cross_field_errors_def declared_num_feature_levels
      declared_return_interm_indices)

lemma length_mismatch_reported:
  assumes "r ''num_feature_levels'' = Some (PyInt 4)"
    and "r ''return_interm_indices'' = Some (PyList [PyInt 1, PyInt 2, PyInt 3])"
  shows "ConfigValidationError ''return_interm_indices'' LengthMismatch
           \<in> set (validate schema r)"
  using assms by (simp add: validate_def cross_field_errors_def)

lemma length_match_accepted:
  assumes "r ''num_feature_levels'' = Some (PyInt 4)"
    and "r ''return_interm_indices'' = Some (PyList [PyInt 1, PyInt 2, PyInt 3, PyInt 4])"
  shows "cross_field_errors r = []"
  using assms by (simp add: cross_field_errors_def)

subsection \<open>The builder and the validator on a value outside its bounds\<close>

lemma build_field_keeps: "build_field g = Inr d \<Longrightarrow> d = g"
  by (auto simp: build_field_def split: if_splits option.splits list.splits)

lemma out_of_bounds_violates:
  assumes "kw f ''valid_min'' = Some lo" "num_of lo = Some l"
    and "kw f ''valid_max'' = Some hi"
    and "num_of v = Some x"
    and "x < l \<or> (\<exists>h. upper_of hi = Some (Upto h) \<and> h < x)"
  shows "BelowMin \<in> set (value_violations f v) \<or> AboveMax \<in> set (value_violations f v)"
  using assms
  by (auto simp: value_violations_def bound_violations_def declares_bounds_def
      at_least_min_def at_most_max_def)

subsection \<open>The loaded record and the declared record, by name\<close>






lemma declared_num_queries:
  "map_of (declared_record (GDINOModelConfig ks)) ''num_queries'' = Some (PyInt 900)"
proof -
  have "num_queries \<in> set (GDINOModelConfig ks)" by (simp add: GDINOModelConfig_def)
  from map_of_named [OF names_distinct this,
      of "\<lambda>f. case declared_value f of Some v \<Rightarrow> v | None \<Rightarrow> PyNone"]
  show ?thesis
    by (simp add: declared_record_def declared_value_def kw_def num_queries_def)
qed

lemma no_field_extra: "map_of (declared_record (GDINOModelConfig ks)) ''extra'' = None"
  by (simp add: map_of_eq_None_iff declared_record_def image_image GDINOModelConfig_def
      field_defs)

section \<open>Properties of the declared schema\<close>

text \<open>
  C9. The fields that pass \<^verbatim>\<open>automl_enabled="TRUE"\<close> are exactly \<^verbatim>\<open>num_queries\<close>,
  \<^verbatim>\<open>num_select\<close>, \<^verbatim>\<open>enc_layers\<close> and \<^verbatim>\<open>dec_layers\<close>. Each of the four passes
  \<^verbatim>\<open>valid_min=1\<close>; only \<^verbatim>\<open>num_queries\<close> passes a \<^verbatim>\<open>valid_max\<close>, the string
  \<^verbatim>\<open>"inf"\<close>, and the other three pass no \<^verbatim>\<open>valid_max\<close> at all.
\<close>

theorem automl_fields_bounds:
  "automl_fields (GDINOModelConfig ks) = [num_queries, num_select, enc_layers, dec_layers]
   \<and> map fname (automl_fields (GDINOModelConfig ks)) =
       [''num_queries'', ''num_select'', ''enc_layers'', ''dec_layers'']
   \<and> map (\<lambda>f. kw f ''valid_min'') (automl_fields (GDINOModelConfig ks)) =
       [Some (PyInt 1), Some (PyInt 1), Some (PyInt 1), Some (PyInt 1)]
   \<and> map (\<lambda>f. kw f ''valid_max'') (automl_fields (GDINOModelConfig ks)) =
       [Some (PyStr ''inf''), None, None, None]"
  by (simp add: automl_fields_def GDINOModelConfig_def kw_def field_defs)

text \<open>
  C10. \<^verbatim>\<open>hidden_dim\<close> is the only field whose builder call passes no
  \<^verbatim>\<open>display_name\<close>: the call passes \<^verbatim>\<open>display_unit="hidden dim"\<close> in its place.
\<close>

theorem hidden_dim_only_without_display_name:
  "fields_without ''display_name'' (GDINOModelConfig ks) = [hidden_dim]
   \<and> fname hidden_dim = ''hidden_dim''
   \<and> kw hidden_dim ''display_name'' = None
   \<and> kw hidden_dim ''display_unit'' = Some (PyStr ''hidden dim'')"
  by (simp add: fields_without_def GDINOModelConfig_def kw_def field_defs)

subsection \<open>Bounds\<close>

text \<open>
  C8. Every field whose call declares both \<^verbatim>\<open>valid_min\<close> and \<^verbatim>\<open>valid_max\<close> has
  well-formed bounds: the minimum is at most the maximum, or the maximum is the
  unbounded sentinel \<^verbatim>\<open>"inf"\<close>. In particular \<^verbatim>\<open>num_feature_levels\<close> declares 1 and 5,
  and \<^verbatim>\<open>dropout_ratio\<close> declares 0.0 and 1.0.
\<close>

theorem declared_bounds_well_formed:
  "(\<forall>f \<in> set (GDINOModelConfig ks). declares_min_and_max f \<longrightarrow> min_le_max f)
   \<and> kw num_feature_levels ''valid_min'' = Some (PyInt 1)
   \<and> kw num_feature_levels ''valid_max'' = Some (PyInt 5)
   \<and> kw dropout_ratio ''valid_min'' = Some (PyFloat 0)
   \<and> kw dropout_ratio ''valid_max'' = Some (PyFloat 1)"
  by (simp add: GDINOModelConfig_def declares_min_and_max_def min_le_max_def kw_def field_defs)

theorem declared_bounds_well_formed_witness:
  "declares_min_and_max num_feature_levels \<and> min_le_max num_feature_levels
   \<and> declares_min_and_max dropout_ratio \<and> min_le_max dropout_ratio"
proof -
  have a: "num_feature_levels \<in> set (GDINOModelConfig [])"
    and b: "dropout_ratio \<in> set (GDINOModelConfig [])"
    by (simp_all add: GDINOModelConfig_def)
  have c: "declares_min_and_max num_feature_levels"
    and d: "declares_min_and_max dropout_ratio"
    by (simp_all add: declares_min_and_max_def kw_def num_feature_levels_def dropout_ratio_def)
  from a b c d declared_bounds_well_formed [of "[]"] show ?thesis by blast
qed

text \<open>
  C1. For every numeric field (built by \<^verbatim>\<open>INT_FIELD\<close> or \<^verbatim>\<open>FLOAT_FIELD\<close>) that declares a
  bound, the declared \<^verbatim>\<open>value\<close> lies between \<^verbatim>\<open>valid_min\<close> and \<^verbatim>\<open>valid_max\<close>, where
  \<^verbatim>\<open>"inf"\<close> is no upper bound; and where the call declares a \<^verbatim>\<open>math_cond\<close>, the value
  meets it. In particular the value -1 of \<^verbatim>\<open>fix_refpoints_hw\<close> meets \<^verbatim>\<open>valid_min=-2\<close>,
  \<^verbatim>\<open>valid_max="inf"\<close> and \<^verbatim>\<open>"!= 0"\<close>, and the value 0.0 of \<^verbatim>\<open>dropout_ratio\<close> lies in
  [0.0, 1.0].
\<close>

theorem declared_values_within_bounds:
  "(\<forall>f \<in> set (GDINOModelConfig ks).
      is_numeric f \<longrightarrow>
        (declares_bounds f \<longrightarrow> value_in_bounds f) \<and>
        (kw f ''math_cond'' \<noteq> None \<longrightarrow> value_meets_math_cond f))
   \<and> kw fix_refpoints_hw ''value'' = Some (PyInt (- 1))
   \<and> kw fix_refpoints_hw ''valid_min'' = Some (PyInt (- 2))
   \<and> kw fix_refpoints_hw ''valid_max'' = Some (PyStr ''inf'')
   \<and> kw fix_refpoints_hw ''math_cond'' = Some (PyStr ''!= 0'')
   \<and> kw dropout_ratio ''value'' = Some (PyFloat 0)
   \<and> kw dropout_ratio ''valid_min'' = Some (PyFloat 0)
   \<and> kw dropout_ratio ''valid_max'' = Some (PyFloat 1)"
proof -
  have bounds: "\<forall>f \<in> set (GDINOModelConfig ks).
      is_numeric f \<longrightarrow> declares_bounds f \<longrightarrow> value_in_bounds f"
    by (simp add: GDINOModelConfig_def is_numeric_def declares_bounds_def value_in_bounds_def
        num_value_def at_least_min_def at_most_max_def kw_def field_defs)
  have conds: "\<forall>f \<in> set (GDINOModelConfig ks).
      is_numeric f \<longrightarrow> kw f ''math_cond'' \<noteq> None \<longrightarrow> value_meets_math_cond f"
    by (simp add: GDINOModelConfig_def is_numeric_def value_meets_math_cond_def num_value_def
        kw_def field_defs eval_ne_zero eval_gt_zero)
  have vals: "kw fix_refpoints_hw ''value'' = Some (PyInt (- 1))
     \<and> kw fix_refpoints_hw ''valid_min'' = Some (PyInt (- 2))
     \<and> kw fix_refpoints_hw ''valid_max'' = Some (PyStr ''inf'')
     \<and> kw fix_refpoints_hw ''math_cond'' = Some (PyStr ''!= 0'')
     \<and> kw dropout_ratio ''value'' = Some (PyFloat 0)
     \<and> kw dropout_ratio ''valid_min'' = Some (PyFloat 0)
     \<and> kw dropout_ratio ''valid_max'' = Some (PyFloat 1)"
    by (simp add: kw_def fix_refpoints_hw_def dropout_ratio_def)
  from bounds conds vals show ?thesis by blast
qed

theorem declared_values_within_bounds_witness:
  "is_numeric fix_refpoints_hw \<and> declares_bounds fix_refpoints_hw
   \<and> value_in_bounds fix_refpoints_hw \<and> value_meets_math_cond fix_refpoints_hw
   \<and> is_numeric dropout_ratio \<and> declares_bounds dropout_ratio
   \<and> value_in_bounds dropout_ratio"
proof -
  have a: "fix_refpoints_hw \<in> set (GDINOModelConfig [])"
    and b: "dropout_ratio \<in> set (GDINOModelConfig [])"
    by (simp_all add: GDINOModelConfig_def)
  have c: "is_numeric fix_refpoints_hw" "declares_bounds fix_refpoints_hw"
    "kw fix_refpoints_hw ''math_cond'' \<noteq> None"
    by (simp_all add: is_numeric_def declares_bounds_def kw_def fix_refpoints_hw_def)
  have d: "is_numeric dropout_ratio" "declares_bounds dropout_ratio"
    by (simp_all add: is_numeric_def declares_bounds_def kw_def dropout_ratio_def)
  from a b c d declared_values_within_bounds [of "[]"] show ?thesis by blast
qed

subsection \<open>Options\<close>

text \<open>
  Three fields declare \<^verbatim>\<open>valid_options\<close>: \<^verbatim>\<open>backbone\<close>, \<^verbatim>\<open>two_stage_type\<close> and
  \<^verbatim>\<open>decoder_sa_type\<close>. The values of the last two are among their options. The options of
  \<^verbatim>\<open>backbone\<close> are the keys of \<^verbatim>\<open>swin_model_dict\<close> followed by \<^verbatim>\<open>"resnet_50"\<close>, so whether
  its value \<^verbatim>\<open>"swin_tiny_224_1k"\<close> is among them is decided by that imported dictionary and
  not by this module.
\<close>

lemma string_field_options:
  "map fname (filter (\<lambda>f. kw f ''valid_options'' \<noteq> None) (GDINOModelConfig ks)) =
      [''backbone'', ''two_stage_type'', ''decoder_sa_type'']
   \<and> option_list two_stage_type = Some [''standard'', ''no'']
   \<and> value_in_options two_stage_type
   \<and> option_list decoder_sa_type = Some [''sa'', ''ca_label'', ''ca_content'']
   \<and> value_in_options decoder_sa_type
   \<and> option_list (backbone ks) =
        Some (split_on CHR '','' (join_str '','' (SUPPORTED_BACKBONES ks)))
   \<and> (value_in_options (backbone ks) \<longleftrightarrow>
        ''swin_tiny_224_1k''
          \<in> set (split_on CHR '','' (join_str '','' (SUPPORTED_BACKBONES ks))))"
  by (simp add: GDINOModelConfig_def value_in_options_def option_list_def kw_def field_defs)

section \<open>Properties of the consumers\<close>

text \<open>
  C3. A record with \<^verbatim>\<open>num_feature_levels = 4\<close> and \<^verbatim>\<open>return_interm_indices = [1,2,3,4]\<close>
  meets the cross-field invariant, and the record of the declared values (which holds
  these two) validates with no error. A record with \<^verbatim>\<open>num_feature_levels = 4\<close> and
  \<^verbatim>\<open>return_interm_indices = [1,2,3]\<close> fails validation, under any schema, with a
  length-mismatch error naming \<^verbatim>\<open>return_interm_indices\<close>. Whether the declared backbone is
  an option depends on the keys of \<^verbatim>\<open>swin_model_dict\<close>, hence the hypothesis.
\<close>

theorem cross_field_validation:
  assumes "''swin_tiny_224_1k'' \<in> set ks"
  shows "validate (GDINOModelConfig ks) (map_of (declared_record (GDINOModelConfig ks))) = []
    \<and> map_of (declared_record (GDINOModelConfig ks)) ''num_feature_levels'' = Some (PyInt 4)
    \<and> map_of (declared_record (GDINOModelConfig ks)) ''return_interm_indices'' =
        Some (PyList [PyInt 1, PyInt 2, PyInt 3, PyInt 4])
    \<and> (\<forall>r. r ''num_feature_levels'' = Some (PyInt 4) \<longrightarrow>
            r ''return_interm_indices'' = Some (PyList [PyInt 1, PyInt 2, PyInt 3, PyInt 4]) \<longrightarrow>
            cross_field_errors r = [])
    \<and> (\<forall>schema r. r ''num_feature_levels'' = Some (PyInt 4) \<longrightarrow>
            r ''return_interm_indices'' = Some (PyList [PyInt 1, PyInt 2, PyInt 3]) \<longrightarrow>
            ConfigValidationError ''return_interm_indices'' LengthMismatch
              \<in> set (validate schema r)
            \<and> validate schema r \<noteq> [])"
proof -
  have c1: "validate (GDINOModelConfig ks) (map_of (declared_record (GDINOModelConfig ks))) = []"
    by (rule validate_declared [OF assms])
  have c2: "map_of (declared_record (GDINOModelConfig ks)) ''num_feature_levels'' = Some (PyInt 4)"
    by (rule declared_num_feature_levels)
  have c3: "map_of (declared_record (GDINOModelConfig ks)) ''return_interm_indices'' =
        Some (PyList [PyInt 1, PyInt 2, PyInt 3, PyInt 4])"
    by (rule declared_return_interm_indices)
  have c4: "\<forall>r. r ''num_feature_levels'' = Some (PyInt 4) \<longrightarrow>
            r ''return_interm_indices'' = Some (PyList [PyInt 1, PyInt 2, PyInt 3, PyInt 4]) \<longrightarrow>
            cross_field_errors r = []"
    by (intro allI impI) (rule length_match_accepted)
  have c5: "\<forall>schema r. r ''num_feature_levels'' = Some (PyInt 4) \<longrightarrow>
            r ''return_interm_indices'' = Some (PyList [PyInt 1, PyInt 2, PyInt 3]) \<longrightarrow>
            ConfigValidationError ''return_interm_indices'' LengthMismatch
              \<in> set (validate schema r)
            \<and> validate schema r \<noteq> []"
  proof (intro allI impI)
    fix schema :: "field_decl list" and r :: "string \<rightharpoonup> pyval"
    assume a: "r ''num_feature_levels'' = Some (PyInt 4)"
      and b: "r ''return_interm_indices'' = Some (PyList [PyInt 1, PyInt 2, PyInt 3])"
    have m: "ConfigValidationError ''return_interm_indices'' LengthMismatch
        \<in> set (validate schema r)"
      by (rule length_mismatch_reported [OF a b])
    then have "validate schema r \<noteq> []" by (cases "validate schema r") simp_all
    with m show "ConfigValidationError ''return_interm_indices'' LengthMismatch
        \<in> set (validate schema r) \<and> validate schema r \<noteq> []" by (rule conjI)
  qed
  show ?thesis by (rule conjI c1 c2 c3 c4 c5)+
qed

theorem cross_field_validation_witness:
  "validate (GDINOModelConfig [''swin_tiny_224_1k''])
      (map_of (declared_record (GDINOModelConfig [''swin_tiny_224_1k'']))) = []
   \<and> validate (GDINOModelConfig [''swin_tiny_224_1k''])
      ((map_of (declared_record (GDINOModelConfig [''swin_tiny_224_1k''])))
         (''return_interm_indices'' \<mapsto> PyList [PyInt 1, PyInt 2, PyInt 3])) \<noteq> []"
proof -
  let ?cfg = "GDINOModelConfig [''swin_tiny_224_1k'']"
  let ?r = "(map_of (declared_record ?cfg))
      (''return_interm_indices'' \<mapsto> PyList [PyInt 1, PyInt 2, PyInt 3])"
  have h: "''swin_tiny_224_1k'' \<in> set [''swin_tiny_224_1k'']" by simp
  note all = cross_field_validation [OF h]
  note ok = all [THEN conjunct1]
  note bad = all [THEN conjunct2, THEN conjunct2, THEN conjunct2, THEN conjunct2, rule_format]
  have a: "?r ''num_feature_levels'' = Some (PyInt 4)"
    by (simp add: declared_num_feature_levels)
  have b: "?r ''return_interm_indices'' = Some (PyList [PyInt 1, PyInt 2, PyInt 3])" by simp
  have "validate ?cfg ?r \<noteq> []" using bad [OF a b, of ?cfg] by (rule conjunct2)
  with ok show ?thesis by (rule conjI)
qed

text \<open>
  C4. For a numeric field whose call declares both bounds, a value strictly below the
  minimum or strictly above the maximum is rejected: the builder returns a
  schema-definition error naming the field, and the validator reports an error naming
  the field for any record that holds the value. Nothing is clamped or coerced: a
  descriptor that is built is the call as it was passed.
\<close>

theorem out_of_bounds_rejected:
  assumes "is_numeric f"
    and "kw f ''value'' = Some v" and "num_of v = Some x"
    and "kw f ''valid_min'' = Some lo" and "num_of lo = Some l"
    and "kw f ''valid_max'' = Some hi"
    and "x < l \<or> (\<exists>h. upper_of hi = Some (Upto h) \<and> h < x)"
  shows "(\<exists>rule. build_field f = Inl (SchemaDefinitionError (fname f) rule))
     \<and> (\<forall>schema r. f \<in> set schema \<longrightarrow> r (fname f) = Some v \<longrightarrow>
           (\<exists>rule. ConfigValidationError (fname f) rule \<in> set (validate schema r)))
     \<and> (\<forall>g d. build_field g = Inr d \<longrightarrow> d = g)"
proof -
  have viol: "BelowMin \<in> set (value_violations f v) \<or> AboveMax \<in> set (value_violations f v)"
    using out_of_bounds_violates [OF assms(4,5,6,3,7)] .
  have dv: "declared_value f = Some v"
    using assms(1,2) by (auto simp: declared_value_def is_numeric_def)
  have ne: "value_violations f v \<noteq> []" using viol by auto
  have 1: "\<exists>rule. build_field f = Inl (SchemaDefinitionError (fname f) rule)"
    using dv ne by (auto simp: build_field_def split: list.splits)
  have 2: "\<exists>rule. ConfigValidationError (fname f) rule \<in> set (validate schema r)"
    if "f \<in> set schema" "r (fname f) = Some v" for schema r
  proof -
    from viol obtain rule where "rule \<in> set (value_violations f v)" by blast
    then have "ConfigValidationError (fname f) rule \<in> set (field_errors r f)"
      using that(2) by (simp add: field_errors_def)
    then have "ConfigValidationError (fname f) rule \<in> set (validate schema r)"
      using that(1) by (auto simp: validate_def)
    then show ?thesis ..
  qed
  have 3: "\<forall>g d. build_field g = Inr d \<longrightarrow> d = g"
    using build_field_keeps by blast
  from 1 2 3 show ?thesis by blast
qed

theorem out_of_bounds_rejected_witness:
  "\<exists>rule. build_field
      \<lparr>fname = ''num_feature_levels'', annotation = ''int'', builder = INT_FIELD,
       kwargs = [(''value'', PyInt 9), (''valid_min'', PyInt 1), (''valid_max'', PyInt 5)]\<rparr>
     = Inl (SchemaDefinitionError ''num_feature_levels'' rule)"
proof -
  let ?f = "\<lparr>fname = ''num_feature_levels'', annotation = ''int'', builder = INT_FIELD,
       kwargs = [(''value'', PyInt 9), (''valid_min'', PyInt 1), (''valid_max'', PyInt 5)]\<rparr>"
  have a: "is_numeric ?f" by (simp add: is_numeric_def)
  have b: "kw ?f ''value'' = Some (PyInt 9)" by (simp add: kw_def)
  have c: "num_of (PyInt 9) = Some 9" by simp
  have d: "kw ?f ''valid_min'' = Some (PyInt 1)" by (simp add: kw_def)
  have e: "num_of (PyInt 1) = Some 1" by simp
  have g: "kw ?f ''valid_max'' = Some (PyInt 5)" by (simp add: kw_def)
  have h: "(9::rat) < 1 \<or> (\<exists>h. upper_of (PyInt 5) = Some (Upto h) \<and> h < 9)" by simp
  from out_of_bounds_rejected [OF a b c d e g h, THEN conjunct1]
  show ?thesis by simp
qed

text \<open>
  C5. With the subtasks \<^verbatim>\<open>train\<close>, \<^verbatim>\<open>evaluate\<close> and \<^verbatim>\<open>export\<close>, the arguments
  \<^verbatim>\<open>["evaluate", "--epoch", "5"]\<close> run the handler of \<^verbatim>\<open>evaluate\<close>, once, for the network
  \<^verbatim>\<open>grounding_dino\<close>, with \<^verbatim>\<open>["--epoch", "5"]\<close> forwarded as they are, and return what the
  handler returns. The arguments \<^verbatim>\<open>["bogus"]\<close> fail with a subtask-not-found error that
  lists the three valid names, and run nothing.
\<close>

theorem dispatch_evaluate_and_bogus:
  "main [(''train'', h1), (''evaluate'', h2), (''export'', h3)]
      [''evaluate'', ''--epoch'', ''5''] trace
     = (h2 \<lparr>subtask = ''evaluate'', network = ''grounding_dino'',
            forwarded = [''--epoch'', ''5'']\<rparr>,
        trace @ [\<lparr>subtask = ''evaluate'', network = ''grounding_dino'',
            forwarded = [''--epoch'', ''5'']\<rparr>])
   \<and> main [(''train'', h1), (''evaluate'', h2), (''export'', h3)] [''bogus''] trace
     = (Some (SubtaskNotFoundError ''bogus'' [''train'', ''evaluate'', ''export'']), trace)"
  by (simp add: main_def get_subtask_list_def get_subtasks_def command_line_parser_def
      launch_def Let_def)




text \<open>
  C7, as stated: no operation on a built record changes a field or adds one. This fails:
  the class is a plain dataclass, so on the record of the declared values the assignment
  \<^verbatim>\<open>cfg.num_queries = 1\<close> succeeds and replaces 900 by 1, and \<^verbatim>\<open>cfg.extra = 0\<close> succeeds
  and adds an attribute the class does not declare.
\<close>

theorem record_is_mutable:
  "setattr GDINOModelConfig_params (map_of (declared_record (GDINOModelConfig [])))
      ''num_queries'' (PyInt 1)
     = Inr ((map_of (declared_record (GDINOModelConfig [])))(''num_queries'' \<mapsto> PyInt 1))
   \<and> map_of (declared_record (GDINOModelConfig [])) ''num_queries'' = Some (PyInt 900)
   \<and> ((map_of (declared_record (GDINOModelConfig [])))(''num_queries'' \<mapsto> PyInt 1))
        ''num_queries'' = Some (PyInt 1)
   \<and> setattr GDINOModelConfig_params (map_of (declared_record (GDINOModelConfig [])))
      ''extra'' (PyInt 0)
     = Inr ((map_of (declared_record (GDINOModelConfig [])))(''extra'' \<mapsto> PyInt 0))
   \<and> map_of (declared_record (GDINOModelConfig [])) ''extra'' = None"
  by (simp add: setattr_def GDINOModelConfig_params_def declared_num_queries no_field_extra)

text \<open>
  C7, amended. Reading an attribute leaves the record as it was. Assigning an attribute
  of a \<^verbatim>\<open>GDINOModelConfig\<close> succeeds, stores the value under that name and leaves every
  other attribute unchanged.
\<close>

theorem plain_dataclass_frame:
  "snd (getattr obj n) = obj
   \<and> (\<exists>obj'. setattr GDINOModelConfig_params obj n v = Inr obj' \<and> obj' n = Some v
          \<and> (\<forall>m. m \<noteq> n \<longrightarrow> obj' m = obj m))"
  by (simp add: getattr_def setattr_def GDINOModelConfig_params_def split: option.split)

theorem plain_dataclass_frame_witness:
  "\<exists>obj'. setattr GDINOModelConfig_params (map_of (declared_record (GDINOModelConfig [])))
       ''num_queries'' (PyInt 1) = Inr obj'
     \<and> obj' ''num_queries'' = Some (PyInt 1)
     \<and> obj' ''num_feature_levels'' = Some (PyInt 4)"
proof -
  let ?obj = "map_of (declared_record (GDINOModelConfig []))"
  from plain_dataclass_frame [of ?obj "''num_queries''" "PyInt 1", THEN conjunct2]
  obtain obj' where o: "setattr GDINOModelConfig_params ?obj ''num_queries'' (PyInt 1) = Inr obj'"
    "obj' ''num_queries'' = Some (PyInt 1)" "\<forall>m. m \<noteq> ''num_queries'' \<longrightarrow> obj' m = ?obj m"
    by (elim exE conjE)
  have "''num_feature_levels'' \<noteq> ''num_queries''" by simp
  with o(3) have "obj' ''num_feature_levels'' = ?obj ''num_feature_levels''" by simp
  then have "obj' ''num_feature_levels'' = Some (PyInt 4)"
    by (simp add: declared_num_feature_levels)
  with o(1,2) show ?thesis by (intro exI conjI)
qed

end
